theory Spec2Isabelle
  imports Complex_Main "HOL-Library.Sublist"
begin

section \<open>Hydrological models of DupuitLEM\<close>

text \<open>
  Shallow embedding of \<^verbatim>\<open>DupuitLEM/auxiliary_models/hydrological_models.py\<close>.

  A numpy array over the nodes of the grid is a \<^typ>\<open>real list\<close>; a boolean mask is a
  \<^typ>\<open>bool list\<close>. Floating-point numbers are read as real numbers: rounding and the
  IEEE special values (NaN, infinities) are outside the model, so a statement about a
  quotient is only meant where its divisor is not zero. Arrays of different lengths are
  rejected with an error, as numpy does; its broadcasting of one-element arrays is not
  modelled.

  The step operations modelled are \<^verbatim>\<open>run_step\<close> of
  \<^verbatim>\<open>HydrologyIntegrateShearStress\<close>, \<^verbatim>\<open>HydrologyEventShearStress\<close>,
  \<^verbatim>\<open>HydrologySteadyStreamPower\<close>, \<^verbatim>\<open>HydrologyEventStreamPower\<close> and
  \<^verbatim>\<open>HydrologyEventThresholdStreamPower\<close>, and
  \<^verbatim>\<open>HydrologyEventShearStress.run_step_record_state\<close>.
\<close>

subsection \<open>Errors\<close>

datatype error =
    ShapeMismatch   \<comment> \<open>numpy raises on arrays of different shapes\<close>
  | SolverError     \<comment> \<open>an exception raised inside a collaborator\<close>

subsection \<open>Array helpers\<close>

definition zeros_like :: "real list \<Rightarrow> real list" where
  "zeros_like a = replicate (length a) 0"

text \<open>\<^verbatim>\<open>a[c] = v[c]\<close>: the entries of \<open>a\<close> selected by the mask \<open>c\<close> take the value
  computed for that node, the others are kept. The value is only computed at selected
  nodes.\<close>

definition mask_assign :: "real list \<Rightarrow> bool list \<Rightarrow> (nat \<Rightarrow> real) \<Rightarrow> real list" where
  "mask_assign a c v = map (\<lambda>i. if c ! i then v i else a ! i) [0..<length a]"

text \<open>\<^verbatim>\<open>np.logical_and(x > t, y > t)\<close> and its two siblings, node by node.\<close>

definition both_above :: "real list \<Rightarrow> real list \<Rightarrow> real \<Rightarrow> bool list" where
  "both_above x y t = map (\<lambda>i. x ! i > t \<and> y ! i > t) [0..<length x]"

definition below_above :: "real list \<Rightarrow> real list \<Rightarrow> real \<Rightarrow> bool list" where
  "below_above x y t = map (\<lambda>i. x ! i < t \<and> y ! i > t) [0..<length x]"

definition above_below :: "real list \<Rightarrow> real list \<Rightarrow> real \<Rightarrow> bool list" where
  "above_below x y t = map (\<lambda>i. x ! i > t \<and> y ! i < t) [0..<length x]"

subsection \<open>HydrologyIntegrateShearStress.calc\_storm\_eff\_shear\_stress\<close>

definition calc_storm_eff_shear_stress ::
  "real list \<Rightarrow> real list \<Rightarrow> real list \<Rightarrow> real \<Rightarrow> real \<Rightarrow> real \<Rightarrow> error + real list" where
  "calc_storm_eff_shear_stress tau0 tau1 tau2 tauc tr tb =
    (if length tau1 \<noteq> length tau0 \<or> length tau2 \<noteq> length tau0 then Inl ShapeMismatch
     else
      let tauint1 = zeros_like tau0;
          tauint2 = zeros_like tau0;
          c1 = both_above tau0 tau1 tauc;
          c2 = below_above tau0 tau1 tauc;
          c3 = above_below tau0 tau1 tauc;
          tauint1 = mask_assign tauint1 c1 (\<lambda>i. 0.5 * tr * (tau0 ! i + tau1 ! i - 2 * tauc));
          tauint1 = mask_assign tauint1 c2
            (\<lambda>i. 0.5 * tr * (tau1 ! i - tauc) * ((tau1 ! i - tauc) / (tau1 ! i - tau0 ! i)));
          tauint1 = mask_assign tauint1 c3
            (\<lambda>i. 0.5 * tr * (tau0 ! i - tauc) * ((tau0 ! i - tauc) / (tau0 ! i - tau1 ! i)));
          c1 = both_above tau1 tau2 tauc;
          c2 = below_above tau1 tau2 tauc;
          c3 = above_below tau1 tau2 tauc;
          tauint2 = mask_assign tauint2 c1 (\<lambda>i. 0.5 * tb * (tau1 ! i + tau2 ! i - 2 * tauc));
          tauint2 = mask_assign tauint2 c2
            (\<lambda>i. 0.5 * tb * (tau2 ! i - tauc) * ((tau2 ! i - tauc) / (tau2 ! i - tau1 ! i)));
          tauint2 = mask_assign tauint2 c3
            (\<lambda>i. 0.5 * tb * (tau1 ! i - tauc) * ((tau1 ! i - tauc) / (tau1 ! i - tau2 ! i)));
          taueff = map (\<lambda>i. (tauint1 ! i + tauint2 ! i) / (tr + tb) + tauc) [0..<length tauint1]
      in Inr taueff)"

text \<open>What the masked assignments leave at one node for one sub-interval from \<open>u\<close> to
  \<open>v\<close> of duration \<open>dt\<close>.\<close>

definition node_integral :: "real \<Rightarrow> real \<Rightarrow> real \<Rightarrow> real \<Rightarrow> real" where
  "node_integral u v tauc dt =
    (if u > tauc \<and> v < tauc then 0.5 * dt * (u - tauc) * ((u - tauc) / (u - v))
     else if u < tauc \<and> v > tauc then 0.5 * dt * (v - tauc) * ((v - tauc) / (v - u))
     else if u > tauc \<and> v > tauc then 0.5 * dt * (u + v - 2 * tauc)
     else 0)"

subsection \<open>Collaborators\<close>

text \<open>
  The grid, the groundwater solver, the flow director and accumulator, the lake mapper and
  the depression finder are external components. The model keeps the list of the calls
  made to them, in order, and reads every value they produce as a function of that
  history: the collaborators are deterministic black boxes. A call that raises is
  recorded too, and the exception leaves the object as it was at that moment.
\<close>

datatype call =
    FindPits               \<comment> \<open>\<^verbatim>\<open>self.dfr._find_pits()\<close>\<close>
  | LakeMapperRun          \<comment> \<open>\<^verbatim>\<open>self.lmb.run_one_step()\<close>\<close>
  | FlowDirectorRun        \<comment> \<open>\<^verbatim>\<open>self.fd.run_one_step()\<close>\<close>
  | FlowAccumulatorRun     \<comment> \<open>\<^verbatim>\<open>self.fa.run_one_step()\<close>\<close>
  | SetRecharge real       \<comment> \<open>\<^verbatim>\<open>self.gdp.recharge = r\<close>\<close>
  | RunGW real             \<comment> \<open>\<^verbatim>\<open>self.gdp.run_with_adaptive_time_step_solver(dt)\<close>\<close>
  | AccumulateFlow bool    \<comment> \<open>\<^verbatim>\<open>self.fa.accumulate_flow(update_flow_director=b)\<close>\<close>
  | CalcGrad               \<comment> \<open>\<^verbatim>\<open>self._calc_grad(self._elev)\<close>\<close>

record env =
  raises :: "call list \<Rightarrow> bool"
    \<comment> \<open>the last call of the history raises\<close>
  number_of_pits :: "call list \<Rightarrow> nat"
    \<comment> \<open>\<^verbatim>\<open>self.dfr._number_of_pits\<close>\<close>
  number_of_substeps :: "call list \<Rightarrow> nat"
    \<comment> \<open>\<^verbatim>\<open>self.gdp.number_of_substeps\<close>\<close>
  recharge :: "call list \<Rightarrow> real list"
    \<comment> \<open>\<^verbatim>\<open>self.gdp.recharge\<close>, an array over the nodes\<close>
  drainage_area :: "call list \<Rightarrow> real list"
    \<comment> \<open>field \<^verbatim>\<open>drainage_area\<close>\<close>
  surface_water__discharge :: "call list \<Rightarrow> real list"
    \<comment> \<open>field \<^verbatim>\<open>surface_water__discharge\<close>, also returned by \<^verbatim>\<open>accumulate_flow\<close>\<close>
  surface_water__specific_discharge :: "call list \<Rightarrow> real list"
  water_table__elevation :: "call list \<Rightarrow> real list"
  aquifer_base__elevation :: "call list \<Rightarrow> real list"
  topographic__elevation :: "call list \<Rightarrow> real list"
  slope_to_receiver :: "call list \<Rightarrow> real list"
    \<comment> \<open>\<^verbatim>\<open>dzdx[self._recievers]\<close>\<close>
  shear_stress_function :: "call list \<Rightarrow> real list"
    \<comment> \<open>\<^verbatim>\<open>self.calc_shear_stress(self._grid)\<close>\<close>
  erosion_rate_function :: "call list \<Rightarrow> real list \<Rightarrow> real list"
    \<comment> \<open>\<^verbatim>\<open>self.calc_erosion_from_shear_stress(self._grid)\<close>, which reads the shear
        stress field\<close>

subsection \<open>The model object\<close>

text \<open>The attributes of a hydrological model that its step operations read and write,
  with the history of its calls.\<close>

record state =
  calls :: "call list"
  self_T_h :: real
  self_tauc :: real
  self_E0 :: real
  self_Ksp :: real
  self_tau :: "real list"
  self_dzdt :: "real list"
  self_q_eff :: "real list"
  self_q_an :: "real list"
  self_Q0 :: "real list"
  self_q :: "real list"
  self_number_substeps :: nat
  self_max_substeps_storm :: nat
  self_max_substeps_interstorm :: nat
  self_time :: "real list"
  self_intensity :: "real list"
  self_tau_all :: "real list list"
  self_Q_all :: "real list list"
  self_wtrel_all :: "real list list"
  self_qs_all :: "real list list"

type_synonym 'a result = "(error \<times> state) + 'a"

definition invoke :: "env \<Rightarrow> call \<Rightarrow> state \<Rightarrow> state result" where
  "invoke E c s =
    (let s' = s\<lparr>calls := calls s @ [c]\<rparr>
     in if raises E (calls s') then Inl (SolverError, s') else Inr s')"

text \<open>Sequencing: an exception ends the step, with the object as it was then.\<close>

definition and_then :: "'a result \<Rightarrow> ('a \<Rightarrow> 'b result) \<Rightarrow> 'b result" where
  "and_then r f = (case r of Inl e \<Rightarrow> Inl e | Inr x \<Rightarrow> f x)"

text \<open>The four statements that open every event-driven step: find the pits, fill them
  if there are any, update the flow directions.\<close>

definition find_pits_and_direct :: "env \<Rightarrow> state \<Rightarrow> state result" where
  "find_pits_and_direct E s =
    (and_then (invoke E FindPits s) (\<lambda>s.
     and_then (if number_of_pits E (calls s) > 0 then invoke E LakeMapperRun s else Inr s) (\<lambda>s.
     invoke E FlowDirectorRun s)))"

text \<open>\<^verbatim>\<open>np.divide(x, y, where=w, out=out)\<close>: the quotient where the mask holds, the
  entry of \<open>out\<close> elsewhere.\<close>

definition divide_where :: "real list \<Rightarrow> real list \<Rightarrow> bool list \<Rightarrow> real list \<Rightarrow> real list" where
  "divide_where x y w out = map (\<lambda>i. if w ! i then x ! i / y ! i else out ! i) [0..<length out]"

definition area_norm :: "real list \<Rightarrow> real list \<Rightarrow> real list" where
  "area_norm qe area =
     divide_where qe (map sqrt area) (map (\<lambda>a. a > 0) area) (zeros_like qe)"

text \<open>The floor of the interevent duration, \<^verbatim>\<open>1e-15\<close>.\<close>

definition eps :: real where
  "eps = 1 / 10 ^ 15"

subsection \<open>HydrologyEventStreamPower.run\_step\<close>

text \<open>A forcing triple is \<open>(storm_dt, interstorm_dt, intensity)\<close>: what
  \<^verbatim>\<open>self.pd.yield_storms()\<close> yields, with the rainfall flux read at that iteration.\<close>

type_synonym forcing = "real \<times> real \<times> real"

fun esp_loop :: "env \<Rightarrow> forcing list \<Rightarrow> real list \<Rightarrow> real list \<Rightarrow> state
                  \<Rightarrow> (real list \<times> state) result" where
  "esp_loop E [] q_total_vol q2 s = Inr (q_total_vol, s)"
| "esp_loop E ((storm_dt, interstorm_dt, intensity) # rest) q_total_vol q2 s =
    (let q0 = q2 in
     and_then (invoke E (SetRecharge intensity) s) (\<lambda>s.
     and_then (invoke E (RunGW storm_dt) s) (\<lambda>s.
     and_then (invoke E (AccumulateFlow False) s) (\<lambda>s.
     let q1 = surface_water__discharge E (calls s);
         s = s\<lparr>self_max_substeps_storm := max (self_max_substeps_storm s) (number_of_substeps E (calls s))\<rparr>
     in
     and_then (invoke E (SetRecharge 0) s) (\<lambda>s.
     and_then (invoke E (RunGW (max interstorm_dt eps)) s) (\<lambda>s.
     and_then (invoke E (AccumulateFlow False) s) (\<lambda>s.
     let q2 = surface_water__discharge E (calls s);
         s = s\<lparr>self_max_substeps_interstorm :=
                  max (self_max_substeps_interstorm s) (number_of_substeps E (calls s))\<rparr>
     in
     if length q0 \<noteq> length q_total_vol \<or> length q1 \<noteq> length q_total_vol
     then Inl (ShapeMismatch, s)
     else
       let q_total_vol =
             map (\<lambda>i. q_total_vol ! i + 0.5 * (q0 ! i + q1 ! i) * storm_dt) [0..<length q_total_vol]
       in esp_loop E rest q_total_vol q2 s)))))))"

text \<open>The two assignments that close a stream-power step.\<close>

definition set_effective_discharge :: "env \<Rightarrow> real list \<Rightarrow> state \<Rightarrow> state result" where
  "set_effective_discharge E q_total_vol s =
    (let area = drainage_area E (calls s) in
     if length q_total_vol \<noteq> length (self_q_eff s) then Inl (ShapeMismatch, s)
     else
       let s = s\<lparr>self_q_eff := map (\<lambda>v. v / self_T_h s) q_total_vol\<rparr> in
       if length area \<noteq> length (self_q_eff s) \<or> length (self_q_an s) \<noteq> length (self_q_eff s)
       then Inl (ShapeMismatch, s)
       else Inr (s\<lparr>self_q_an := area_norm (self_q_eff s) area\<rparr>))"

definition esp_run_step :: "env \<Rightarrow> forcing list \<Rightarrow> state \<Rightarrow> state result" where
  "esp_run_step E storms s =
    (and_then (find_pits_and_direct E s) (\<lambda>s.
     let s = s\<lparr>self_max_substeps_storm := 0, self_max_substeps_interstorm := 0\<rparr>;
         q_total_vol = zeros_like (self_q_eff s);
         q2 = zeros_like (self_q_eff s)
     in
     and_then (esp_loop E storms q_total_vol q2 s) (\<lambda>(q_total_vol, s).
     set_effective_discharge E q_total_vol s)))"

subsection \<open>HydrologyEventThresholdStreamPower.run\_step\<close>

text \<open>\<^verbatim>\<open>np.maximum(q - self.Q0, 0.0)\<close>\<close>

definition excess_discharge :: "real list \<Rightarrow> real list \<Rightarrow> real list" where
  "excess_discharge qraw Qc = map (\<lambda>i. max (qraw ! i - Qc ! i) 0) [0..<length qraw]"

text \<open>The critical discharge: \<^verbatim>\<open>np.divide(self.E0 * np.sqrt(self.area), self.Ksp * S,
  where=S > 0.0, out=np.zeros_like(S))\<close>.\<close>

definition critical_discharge :: "real \<Rightarrow> real \<Rightarrow> real list \<Rightarrow> real list \<Rightarrow> real list" where
  "critical_discharge e0 ksp area S =
     divide_where (map (\<lambda>a. e0 * sqrt a) area) (map (\<lambda>g. ksp * g) S) (map (\<lambda>g. g > 0) S)
       (zeros_like S)"

fun ets_loop :: "env \<Rightarrow> forcing list \<Rightarrow> real list \<Rightarrow> real list \<Rightarrow> state
                  \<Rightarrow> (real list \<times> state) result" where
  "ets_loop E [] q_total_vol q2 s = Inr (q_total_vol, s)"
| "ets_loop E ((storm_dt, interstorm_dt, intensity) # rest) q_total_vol q2 s =
    (let q0 = q2 in
     and_then (invoke E (SetRecharge intensity) s) (\<lambda>s.
     and_then (invoke E (RunGW storm_dt) s) (\<lambda>s.
     and_then (invoke E (AccumulateFlow False) s) (\<lambda>s.
     let qraw = surface_water__discharge E (calls s) in
     if length qraw \<noteq> length (self_Q0 s) then Inl (ShapeMismatch, s)
     else
     let q1 = excess_discharge qraw (self_Q0 s);
         s = s\<lparr>self_max_substeps_storm :=
                  max (self_max_substeps_storm s) (number_of_substeps E (calls s))\<rparr>
     in
     and_then (invoke E (SetRecharge 0) s) (\<lambda>s.
     and_then (invoke E (RunGW (max interstorm_dt eps)) s) (\<lambda>s.
     and_then (invoke E (AccumulateFlow False) s) (\<lambda>s.
     let qraw = surface_water__discharge E (calls s) in
     if length qraw \<noteq> length (self_Q0 s) then Inl (ShapeMismatch, s)
     else
     let q2 = excess_discharge qraw (self_Q0 s);
         s = s\<lparr>self_max_substeps_interstorm :=
                  max (self_max_substeps_interstorm s) (number_of_substeps E (calls s))\<rparr>
     in
     if length q0 \<noteq> length q_total_vol \<or> length q1 \<noteq> length q_total_vol
     then Inl (ShapeMismatch, s)
     else
       let q_total_vol =
             map (\<lambda>i. q_total_vol ! i + 0.5 * (q0 ! i + q1 ! i) * storm_dt) [0..<length q_total_vol]
       in ets_loop E rest q_total_vol q2 s)))))))"

definition set_critical_discharge :: "env \<Rightarrow> state \<Rightarrow> state result" where
  "set_critical_discharge E s =
    (and_then (invoke E CalcGrad s) (\<lambda>s.
     let S = map abs (slope_to_receiver E (calls s)) in
     and_then (invoke E (AccumulateFlow False) s) (\<lambda>s.
     let area = drainage_area E (calls s) in
     if length area \<noteq> length S \<or> length (self_Q0 s) \<noteq> length S then Inl (ShapeMismatch, s)
     else Inr (s\<lparr>self_Q0 := critical_discharge (self_E0 s) (self_Ksp s) area S\<rparr>))))"

definition ets_run_step :: "env \<Rightarrow> forcing list \<Rightarrow> state \<Rightarrow> state result" where
  "ets_run_step E storms s =
    (and_then (find_pits_and_direct E s) (\<lambda>s.
     and_then (set_critical_discharge E s) (\<lambda>s.
     let s = s\<lparr>self_max_substeps_storm := 0, self_max_substeps_interstorm := 0\<rparr>;
         q_total_vol = zeros_like (self_q_eff s);
         q2 = zeros_like (self_q_eff s)
     in
     and_then (ets_loop E storms q_total_vol q2 s) (\<lambda>(q_total_vol, s).
     set_effective_discharge E q_total_vol s))))"

subsection \<open>HydrologySteadyStreamPower.run\_step\<close>

text \<open>\<^verbatim>\<open>self.q[self.q > qmax] = qmax[self.q > qmax]\<close>\<close>

definition clip_discharge :: "real list \<Rightarrow> real list \<Rightarrow> real list" where
  "clip_discharge qs qmax = mask_assign qs (map (\<lambda>i. qs ! i > qmax ! i) [0..<length qs]) (\<lambda>i. qmax ! i)"

definition ssp_run_step :: "env \<Rightarrow> state \<Rightarrow> state result" where
  "ssp_run_step E s =
    (and_then (invoke E (RunGW (self_T_h s)) s) (\<lambda>s.
     let s = s\<lparr>self_number_substeps := number_of_substeps E (calls s)\<rparr> in
     and_then (invoke E FindPits s) (\<lambda>s.
     and_then (if number_of_pits E (calls s) > 0 then invoke E LakeMapperRun s else Inr s) (\<lambda>s.
     and_then (invoke E FlowAccumulatorRun s) (\<lambda>s.
     let area = drainage_area E (calls s);
         r = recharge E (calls s);
         s = s\<lparr>self_q := surface_water__discharge E (calls s)\<rparr>
     in
     if length r \<noteq> length area then Inl (ShapeMismatch, s)
     else
       let qmax = map (\<lambda>i. r ! i * area ! i) [0..<length area] in
       if length qmax \<noteq> length (self_q s) then Inl (ShapeMismatch, s)
       else
         let s = s\<lparr>self_q := clip_discharge (self_q s) qmax\<rparr> in
         if length (self_q_an s) \<noteq> length (self_q s) then Inl (ShapeMismatch, s)
         else Inr (s\<lparr>self_q_an := area_norm (self_q s) area\<rparr>))))))"

subsection \<open>HydrologyIntegrateShearStress.run\_step\<close>

text \<open>The step first calls \<^verbatim>\<open>generate_exp_precip\<close>, which stores what the
  precipitation generator yields: the forcing list below.\<close>

fun iss_loop :: "env \<Rightarrow> forcing list \<Rightarrow> real list \<Rightarrow> state \<Rightarrow> state result" where
  "iss_loop E [] tau2 s = Inr s"
| "iss_loop E ((storm_dt, interstorm_dt, intensity) # rest) tau2 s =
    (let tau0 = tau2 in
     and_then (invoke E (SetRecharge intensity) s) (\<lambda>s.
     and_then (invoke E (RunGW storm_dt) s) (\<lambda>s.
     and_then (invoke E (AccumulateFlow False) s) (\<lambda>s.
     let tau1 = shear_stress_function E (calls s) in
     and_then (invoke E (SetRecharge 0) s) (\<lambda>s.
     and_then (invoke E (RunGW (max interstorm_dt eps)) s) (\<lambda>s.
     and_then (invoke E (AccumulateFlow False) s) (\<lambda>s.
     let tau2 = shear_stress_function E (calls s) in
     case calc_storm_eff_shear_stress tau0 tau1 tau2 (self_tauc s) storm_dt interstorm_dt of
       Inl e \<Rightarrow> Inl (e, s)
     | Inr taueff \<Rightarrow>
       if length taueff \<noteq> length (self_tau s) then Inl (ShapeMismatch, s)
       else
         let s = s\<lparr>self_tau := taueff\<rparr>;
             rate = erosion_rate_function E (calls s) (self_tau s)
         in
         if length rate \<noteq> length (self_dzdt s) then Inl (ShapeMismatch, s)
         else
           let s = s\<lparr>self_dzdt :=
                      map (\<lambda>i. self_dzdt s ! i
                                + (storm_dt + interstorm_dt) / self_T_h s * rate ! i)
                          [0..<length (self_dzdt s)]\<rparr>
           in iss_loop E rest tau2 s)))))))"

definition iss_run_step :: "env \<Rightarrow> forcing list \<Rightarrow> state \<Rightarrow> state result" where
  "iss_run_step E storms s =
    (and_then (find_pits_and_direct E s) (\<lambda>s.
     let s = s\<lparr>self_dzdt := zeros_like (self_tau s)\<rparr>;
         tau2 = self_tau s
     in iss_loop E storms tau2 s))"

subsection \<open>HydrologyEventShearStress.run\_step\<close>

text \<open>\<^verbatim>\<open>self._tau[:] = self.calc_shear_stress(self._grid)\<close>\<close>

definition update_shear_stress :: "env \<Rightarrow> state \<Rightarrow> state result" where
  "update_shear_stress E s =
    (let t = shear_stress_function E (calls s) in
     if length t \<noteq> length (self_tau s) then Inl (ShapeMismatch, s)
     else Inr (s\<lparr>self_tau := t\<rparr>))"

text \<open>\<^verbatim>\<open>deltaz = 0.5 * (dzdt0 + dzdt1) * self.storm_dts[i]; self.dzdt += deltaz / self.T_h\<close>\<close>

definition add_event_erosion :: "real list \<Rightarrow> real list \<Rightarrow> real \<Rightarrow> state \<Rightarrow> state result" where
  "add_event_erosion dzdt0 dzdt1 storm_dt s =
    (if length dzdt1 \<noteq> length dzdt0 \<or> length dzdt0 \<noteq> length (self_dzdt s)
     then Inl (ShapeMismatch, s)
     else Inr (s\<lparr>self_dzdt :=
                  map (\<lambda>i. self_dzdt s ! i + 0.5 * (dzdt0 ! i + dzdt1 ! i) * storm_dt / self_T_h s)
                      [0..<length (self_dzdt s)]\<rparr>))"

fun ess_loop :: "env \<Rightarrow> forcing list \<Rightarrow> real list \<Rightarrow> state \<Rightarrow> state result" where
  "ess_loop E [] dzdt2 s = Inr s"
| "ess_loop E ((storm_dt, interstorm_dt, intensity) # rest) dzdt2 s =
    (let dzdt0 = dzdt2 in
     and_then (invoke E (SetRecharge intensity) s) (\<lambda>s.
     and_then (invoke E (RunGW storm_dt) s) (\<lambda>s.
     and_then (invoke E (AccumulateFlow False) s) (\<lambda>s.
     and_then (update_shear_stress E s) (\<lambda>s.
     let dzdt1 = erosion_rate_function E (calls s) (self_tau s);
         s = s\<lparr>self_max_substeps_storm :=
                  max (self_max_substeps_storm s) (number_of_substeps E (calls s))\<rparr>
     in
     and_then (invoke E (SetRecharge 0) s) (\<lambda>s.
     and_then (invoke E (RunGW (max interstorm_dt eps)) s) (\<lambda>s.
     and_then (invoke E (AccumulateFlow False) s) (\<lambda>s.
     and_then (update_shear_stress E s) (\<lambda>s.
     let dzdt2 = erosion_rate_function E (calls s) (self_tau s);
         s = s\<lparr>self_max_substeps_interstorm :=
                  max (self_max_substeps_interstorm s) (number_of_substeps E (calls s))\<rparr>
     in
     and_then (add_event_erosion dzdt0 dzdt1 storm_dt s) (\<lambda>s.
     ess_loop E rest dzdt2 s))))))))))"

definition ess_run_step :: "env \<Rightarrow> forcing list \<Rightarrow> state \<Rightarrow> state result" where
  "ess_run_step E storms s =
    (and_then (find_pits_and_direct E s) (\<lambda>s.
     let s = s\<lparr>self_max_substeps_storm := 0, self_max_substeps_interstorm := 0\<rparr>;
         s = s\<lparr>self_dzdt := zeros_like (self_tau s)\<rparr>;
         dzdt2 = zeros_like (self_tau s)
     in ess_loop E storms dzdt2 s))"

subsection \<open>HydrologyEventShearStress.run\_step\_record\_state\<close>

text \<open>
  The recording variant reads \<^verbatim>\<open>self.storm_dts\<close>, \<^verbatim>\<open>self.interstorm_dts\<close> and
  \<^verbatim>\<open>self.intensities\<close> as an earlier \<^verbatim>\<open>generate_exp_precip\<close> left them (the forcing
  list below), and the attributes \<^verbatim>\<open>self._wt\<close>, \<^verbatim>\<open>self._base\<close> and
  \<^verbatim>\<open>self._elev\<close>, which the constructor of this class does not set: the model takes
  them as the grid fields of those names, supplied by the caller.
\<close>

text \<open>The four rows written at one time point \<open>k\<close>:
  \<^verbatim>\<open>tau_all[k, :]\<close>, \<^verbatim>\<open>Q_all[k, :]\<close>, \<^verbatim>\<open>wtrel_all[k, :]\<close>, \<^verbatim>\<open>qs_all[k, :]\<close>.\<close>

definition record_rows :: "env \<Rightarrow> nat \<Rightarrow> state \<Rightarrow> state result" where
  "record_rows E k s =
    (let n = length (self_tau s);
         s = s\<lparr>self_tau_all := (self_tau_all s)[k := self_tau s]\<rparr>;
         Q = surface_water__discharge E (calls s)
     in
     if length Q \<noteq> n then Inl (ShapeMismatch, s)
     else
       let s = s\<lparr>self_Q_all := (self_Q_all s)[k := Q]\<rparr>;
           wt = water_table__elevation E (calls s);
           base = aquifer_base__elevation E (calls s);
           elev = topographic__elevation E (calls s)
       in
       if length wt \<noteq> n \<or> length base \<noteq> n \<or> length elev \<noteq> n then Inl (ShapeMismatch, s)
       else
         let s = s\<lparr>self_wtrel_all := (self_wtrel_all s)
                        [k := map (\<lambda>i. (wt ! i - base ! i) / (elev ! i - base ! i)) [0..<n]]\<rparr>;
             qs = surface_water__specific_discharge E (calls s)
         in
         if length qs \<noteq> n then Inl (ShapeMismatch, s)
         else Inr (s\<lparr>self_qs_all := (self_qs_all s)[k := qs]\<rparr>))"

text \<open>The loop of the recording variant, with its index \<open>i\<close>. The recorded arrays
  have \<open>2 * len(storm_dts) + 1\<close> entries, so the indices \<open>2 * i\<close>, \<open>2 * i + 1\<close> and
  \<open>2 * i + 2\<close> it writes are in range.\<close>

fun ess_record_loop :: "env \<Rightarrow> forcing list \<Rightarrow> nat \<Rightarrow> real list \<Rightarrow> state \<Rightarrow> state result" where
  "ess_record_loop E [] i dzdt2 s = Inr s"
| "ess_record_loop E ((storm_dt, interstorm_dt, intensity) # rest) i dzdt2 s =
    (let dzdt0 = dzdt2 in
     and_then (invoke E (SetRecharge intensity) s) (\<lambda>s.
     and_then (invoke E (RunGW storm_dt) s) (\<lambda>s.
     and_then (invoke E (AccumulateFlow False) s) (\<lambda>s.
     and_then (update_shear_stress E s) (\<lambda>s.
     let dzdt1 = erosion_rate_function E (calls s) (self_tau s);
         s = s\<lparr>self_max_substeps_storm :=
                  max (self_max_substeps_storm s) (number_of_substeps E (calls s))\<rparr>;
         s = s\<lparr>self_max_substeps_storm :=
                  max (self_max_substeps_storm s) (number_of_substeps E (calls s))\<rparr>;
         s = s\<lparr>self_time := (self_time s)[i * 2 + 1 := self_time s ! (i * 2) + storm_dt]\<rparr>;
         s = s\<lparr>self_intensity := (self_intensity s)[i * 2 := intensity]\<rparr>
     in
     and_then (record_rows E (i * 2 + 1) s) (\<lambda>s.
     and_then (invoke E (SetRecharge 0) s) (\<lambda>s.
     and_then (invoke E (RunGW interstorm_dt) s) (\<lambda>s.
     and_then (invoke E (AccumulateFlow False) s) (\<lambda>s.
     and_then (update_shear_stress E s) (\<lambda>s.
     let dzdt2 = erosion_rate_function E (calls s) (self_tau s);
         s = s\<lparr>self_max_substeps_interstorm :=
                  max (self_max_substeps_interstorm s) (number_of_substeps E (calls s))\<rparr>;
         s = s\<lparr>self_max_substeps_interstorm :=
                  max (self_max_substeps_interstorm s) (number_of_substeps E (calls s))\<rparr>;
         s = s\<lparr>self_time := (self_time s)[i * 2 + 2 := self_time s ! (i * 2 + 1) + interstorm_dt]\<rparr>
     in
     and_then (record_rows E (i * 2 + 2) s) (\<lambda>s.
     and_then (add_event_erosion dzdt0 dzdt1 storm_dt s) (\<lambda>s.
     ess_record_loop E rest (i + 1) dzdt2 s))))))))))))"

definition ess_run_step_record_state :: "env \<Rightarrow> forcing list \<Rightarrow> state \<Rightarrow> state result" where
  "ess_run_step_record_state E storms s =
    (let Ns = 2 * length storms + 1;
         N = length (self_tau s);
         s = s\<lparr>self_time := replicate Ns 0, self_intensity := replicate Ns 0,
                self_tau_all := replicate Ns (replicate N 0),
                self_Q_all := replicate Ns (replicate N 0),
                self_wtrel_all := replicate Ns (replicate N 0),
                self_qs_all := replicate Ns (replicate N 0)\<rparr>;
         s = s\<lparr>self_max_substeps_storm := 0, self_max_substeps_interstorm := 0\<rparr>
     in
     and_then (find_pits_and_direct E s) (\<lambda>s.
     let s = s\<lparr>self_max_substeps_storm := 0, self_max_substeps_interstorm := 0\<rparr>;
         s = s\<lparr>self_dzdt := zeros_like (self_tau s)\<rparr>;
         dzdt2 = zeros_like (self_tau s)
     in ess_record_loop E storms 0 dzdt2 s))"

subsection \<open>The aggregator as the specification words it\<close>

text \<open>The integral of one sub-interval in the words of the specification: the
  trapezoid when both endpoints exceed the threshold, the triangle when exactly one
  does, zero when neither does.\<close>

definition spec_integral :: "real \<Rightarrow> real \<Rightarrow> real \<Rightarrow> real \<Rightarrow> real" where
  "spec_integral u v thr dt =
    (if u > thr \<and> v > thr then 0.5 * dt * (u + v - 2 * thr)
     else if v > thr then 0.5 * dt * (v - thr) * ((v - thr) / (v - u))
     else if u > thr then 0.5 * dt * (u - thr) * ((u - thr) / (u - v))
     else 0)"

definition spec_eff_shear_stress :: "real \<Rightarrow> real \<Rightarrow> real \<Rightarrow> real \<Rightarrow> real \<Rightarrow> real \<Rightarrow> real" where
  "spec_eff_shear_stress t0 t1 t2 thr tr tb =
    (spec_integral t0 t1 thr tr + spec_integral t1 t2 thr tb) / (tr + tb) + thr"

subsection \<open>The order of the calls and the runoff volume, as the specification words them\<close>

text \<open>Step 2 and 3 of the step procedure: detect the pits, fill them once if there are
  any, recompute the flow directions once. \<open>c0\<close> is the history before the step.\<close>

definition prologue_calls :: "env \<Rightarrow> call list \<Rightarrow> call list" where
  "prologue_calls E c0 =
     [FindPits] @ (if number_of_pits E (c0 @ [FindPits]) > 0 then [LakeMapperRun] else [])
     @ [FlowDirectorRun]"




definition steady_step_calls :: "env \<Rightarrow> call list \<Rightarrow> real \<Rightarrow> call list" where
  "steady_step_calls E c0 dt =
     [RunGW dt, FindPits]
     @ (if number_of_pits E (c0 @ [RunGW dt, FindPits]) > 0 then [LakeMapperRun] else [])
     @ [FlowAccumulatorRun]"

text \<open>The runoff volume at node \<open>i\<close>: the sum over the events of
  \<open>0.5 * (q0 + q1) * storm_dt\<close>, where \<open>q1\<close> is the snapshot at the end of the event
  and \<open>q0\<close> the snapshot at the end of the previous interevent. \<open>c\<close> is the history when
  the event starts and \<open>g\<close> the correction applied to every raw snapshot.\<close>

fun event_volume :: "env \<Rightarrow> (real list \<Rightarrow> real list) \<Rightarrow> call list \<Rightarrow> real list
                       \<Rightarrow> forcing list \<Rightarrow> nat \<Rightarrow> real" where
  "event_volume E g c q0 [] i = 0"
| "event_volume E g c q0 ((storm_dt, interstorm_dt, intensity) # rest) i =
    (let c1 = c @ [SetRecharge intensity, RunGW storm_dt, AccumulateFlow False];
         c2 = c1 @ [SetRecharge 0, RunGW (max interstorm_dt eps), AccumulateFlow False];
         q1 = g (surface_water__discharge E c1);
         q2 = g (surface_water__discharge E c2)
     in 0.5 * (q0 ! i + q1 ! i) * storm_dt + event_volume E g c2 q2 rest i)"


subsection \<open>Concrete collaborators and objects\<close>

text \<open>A grid of two nodes whose collaborators answer the same at every call and never
  raise; the second node has no drainage area.\<close>

definition env0 :: env where
  "env0 = \<lparr> raises = (\<lambda>cs. False),
            number_of_pits = (\<lambda>cs. 0),
            number_of_substeps = (\<lambda>cs. 1),
            recharge = (\<lambda>cs. [1, 1]),
            drainage_area = (\<lambda>cs. [1, 0]),
            surface_water__discharge = (\<lambda>cs. [2, 3]),
            surface_water__specific_discharge = (\<lambda>cs. [1, 1]),
            water_table__elevation = (\<lambda>cs. [1, 1]),
            aquifer_base__elevation = (\<lambda>cs. [0, 0]),
            topographic__elevation = (\<lambda>cs. [2, 2]),
            slope_to_receiver = (\<lambda>cs. [- 1, 0]),
            shear_stress_function = (\<lambda>cs. [2, 2]),
            erosion_rate_function = (\<lambda>cs t. t) \<rparr>"

text \<open>The same collaborators, except that the call number \<open>k\<close> of the history raises.\<close>

definition env_raising :: "nat \<Rightarrow> env" where
  "env_raising k = env0 \<lparr> raises := (\<lambda>cs. length cs = k) \<rparr>"

text \<open>A freshly constructed object on that grid: every field is zero, the horizon is
  \<open>1000\<close>.\<close>

definition state0 :: state where
  "state0 = \<lparr> calls = [], self_T_h = 1000, self_tauc = 0, self_E0 = 0, self_Ksp = 1,
              self_tau = [0, 0], self_dzdt = [0, 0], self_q_eff = [0, 0], self_q_an = [0, 0],
              self_Q0 = [0, 0], self_q = [0, 0], self_number_substeps = 0,
              self_max_substeps_storm = 0, self_max_substeps_interstorm = 0,
              self_time = [], self_intensity = [], self_tau_all = [], self_Q_all = [],
              self_wtrel_all = [], self_qs_all = [] \<rparr>"

section \<open>Properties\<close>

lemma length_mask_assign [simp]: "length (mask_assign a c v) = length a"
  by (simp add: mask_assign_def)

lemma nth_mask_assign [simp]:
  "i < length a \<Longrightarrow> mask_assign a c v ! i = (if c ! i then v i else a ! i)"
  by (simp add: mask_assign_def)

lemma length_zeros_like [simp]: "length (zeros_like a) = length a"
  by (simp add: zeros_like_def)

lemma nth_zeros_like [simp]: "i < length a \<Longrightarrow> zeros_like a ! i = 0"
  by (simp add: zeros_like_def)

lemma nth_masks [simp]:
  "i < length x \<Longrightarrow> both_above x y t ! i = (x ! i > t \<and> y ! i > t)"
  "i < length x \<Longrightarrow> below_above x y t ! i = (x ! i < t \<and> y ! i > t)"
  "i < length x \<Longrightarrow> above_below x y t ! i = (x ! i > t \<and> y ! i < t)"
  by (simp_all add: both_above_def below_above_def above_below_def)

lemma calc_storm_eff_shear_stress_length:
  "calc_storm_eff_shear_stress tau0 tau1 tau2 tauc tr tb = Inr r \<Longrightarrow> length r = length tau0"
  by (auto simp: calc_storm_eff_shear_stress_def Let_def split: if_splits)

lemma calc_storm_eff_shear_stress_nth:
  assumes "calc_storm_eff_shear_stress tau0 tau1 tau2 tauc tr tb = Inr r"
      and "i < length tau0"
  shows "r ! i = (node_integral (tau0 ! i) (tau1 ! i) tauc tr
                  + node_integral (tau1 ! i) (tau2 ! i) tauc tb) / (tr + tb) + tauc"
  using assms
  by (auto simp: calc_storm_eff_shear_stress_def Let_def node_integral_def split: if_splits)

lemmas aggregator_defs =
  calc_storm_eff_shear_stress_def zeros_like_def mask_assign_def both_above_def
  below_above_def above_below_def Let_def

text \<open>Away from the threshold the code and the specification agree: the masks of the
  code differ from the words of the specification only where an endpoint equals the
  threshold.\<close>

lemma node_integral_eq_spec:
  "u \<noteq> thr \<Longrightarrow> v \<noteq> thr \<Longrightarrow> node_integral u v thr dt = spec_integral u v thr dt"
  by (auto simp: node_integral_def spec_integral_def)

lemma node_integral_crossing:
  assumes "u < thr" "thr < v" "0 < dt"
  shows "0 < node_integral u v thr dt" "node_integral u v thr dt < 0.5 * dt * (v - thr)"
        "0 < node_integral v u thr dt" "node_integral v u thr dt < 0.5 * dt * (v - thr)"
proof -
  have d: "0 < v - u" "0 < v - thr" "v - thr < v - u" using assms by simp_all
  have r: "0 < (v - thr) / (v - u)" "(v - thr) / (v - u) < 1" using d by simp_all
  have e1: "node_integral u v thr dt = 0.5 * dt * (v - thr) * ((v - thr) / (v - u))"
    using assms by (simp add: node_integral_def)
  have e2: "node_integral v u thr dt = 0.5 * dt * (v - thr) * ((v - thr) / (v - u))"
    using assms by (simp add: node_integral_def)
  have p: "0 < 0.5 * dt * (v - thr)" using assms d by simp
  have a: "0 < 0.5 * dt * (v - thr) * ((v - thr) / (v - u))"
    using p r(1) by (rule mult_pos_pos)
  have b: "0.5 * dt * (v - thr) * ((v - thr) / (v - u)) < 0.5 * dt * (v - thr) * 1"
    using r(2) p by (rule mult_strict_left_mono)
  show "0 < node_integral u v thr dt" using a e1 by simp
  show "0 < node_integral v u thr dt" using a e2 by simp
  show "node_integral u v thr dt < 0.5 * dt * (v - thr)" using b e1 by simp
  show "node_integral v u thr dt < 0.5 * dt * (v - thr)" using b e2 by simp
qed

lemma half_bound:
  fixes x T d :: real
  assumes "0 < T" "x < 0.5 * T * d"
  shows "x / T < 0.5 * d"
proof -
  have "x / T < (0.5 * T * d) / T" using assms(2) assms(1) by (rule divide_strict_right_mono)
  also have "(0.5 * T * d) / T = 0.5 * d" using assms(1) by simp
  finally show ?thesis .
qed

subsection \<open>Sequencing and collaborator calls\<close>

lemma and_then_simps [simp]: "and_then (Inl e) f = Inl e" "and_then (Inr x) f = f x"
  by (simp_all add: and_then_def)

lemma and_then_Inr_iff: "and_then r f = Inr y \<longleftrightarrow> (\<exists>x. r = Inr x \<and> f x = Inr y)"
  by (cases r) simp_all


lemma invoke_Inr_iff:
  "invoke E c s = Inr s' \<longleftrightarrow> \<not> raises E (calls s @ [c]) \<and> s' = s\<lparr>calls := calls s @ [c]\<rparr>"
  by (auto simp: invoke_def Let_def)



lemma fpd_Inr:
  "find_pits_and_direct E s = Inr s' \<Longrightarrow>
     s' = s\<lparr>calls := calls s @ prologue_calls E (calls s)\<rparr>"
  by (auto simp: find_pits_and_direct_def prologue_calls_def and_then_Inr_iff invoke_Inr_iff
      split: if_splits)


subsection \<open>Array helpers of the stream-power models\<close>

lemma length_divide_where [simp]: "length (divide_where x y w out) = length out"
  by (simp add: divide_where_def)


lemma length_area_norm [simp]: "length (area_norm qe area) = length qe"
  by (simp add: area_norm_def)


lemma length_critical_discharge [simp]: "length (critical_discharge e0 ksp area S) = length S"
  by (simp add: critical_discharge_def)


lemma length_excess_discharge [simp]: "length (excess_discharge qraw Qc) = length qraw"
  by (simp add: excess_discharge_def)


lemma length_clip_discharge [simp]: "length (clip_discharge qs qmax) = length qs"
  by (simp add: clip_discharge_def)

lemma nth_clip_discharge:
  "i < length qs \<Longrightarrow> clip_discharge qs qmax ! i = min (qs ! i) (qmax ! i)"
  by (simp add: clip_discharge_def min_def)

subsection \<open>HydrologyEventStreamPower.run\_step\<close>



lemma esp_loop_frame:
  "esp_loop E storms v q2 s = Inr (v', s') \<Longrightarrow>
     self_q_eff s' = self_q_eff s \<and> self_q_an s' = self_q_an s \<and> self_T_h s' = self_T_h s
     \<and> length v' = length v"
proof (induction storms arbitrary: v q2 s)
  case Nil
  then show ?case by simp
next
  case (Cons f rest)
  obtain sd isd r where f: "f = (sd, isd, r)" by (cases f)
  from Cons.prems show ?case
    unfolding f
    by (auto simp: and_then_Inr_iff invoke_Inr_iff Let_def split: if_splits dest!: Cons.IH)
qed


lemma esp_loop_value:
  "esp_loop E storms v q2 s = Inr (v', s') \<Longrightarrow> i < length v \<Longrightarrow>
     v' ! i = v ! i + event_volume E (\<lambda>x. x) (calls s) q2 storms i"
proof (induction storms arbitrary: v q2 s)
  case Nil
  then show ?case by simp
next
  case (Cons f rest)
  obtain sd isd r where f: "f = (sd, isd, r)" by (cases f)
  from Cons.prems show ?case
    unfolding f
    by (auto simp: and_then_Inr_iff invoke_Inr_iff Let_def split: if_splits dest!: Cons.IH)
qed

lemma sed_Inr:
  "set_effective_discharge E v s = Inr s' \<Longrightarrow>
     length v = length (self_q_eff s) \<and> length (drainage_area E (calls s)) = length v
     \<and> calls s' = calls s
     \<and> self_q_eff s' = map (\<lambda>x. x / self_T_h s) v
     \<and> self_q_an s' = area_norm (self_q_eff s') (drainage_area E (calls s))"
  by (auto simp: set_effective_discharge_def Let_def split: if_splits)





lemma esp_run_step_q_eff:
  assumes "esp_run_step E storms s = Inr s'" and "i < length (self_q_eff s)"
  shows "self_q_eff s' ! i =
           event_volume E (\<lambda>x. x) (calls s @ prologue_calls E (calls s))
             (zeros_like (self_q_eff s)) storms i / self_T_h s"
proof -
  from assms(1) obtain s1 v s2 where
      p: "find_pits_and_direct E s = Inr s1"
    and l: "esp_loop E storms (zeros_like (self_q_eff s1)) (zeros_like (self_q_eff s1))
              (s1\<lparr>self_max_substeps_storm := 0, self_max_substeps_interstorm := 0\<rparr>) = Inr (v, s2)"
    and f: "set_effective_discharge E v s2 = Inr s'"
    by (auto simp: esp_run_step_def and_then_Inr_iff Let_def)
  have s1: "s1 = s\<lparr>calls := calls s @ prologue_calls E (calls s)\<rparr>" using fpd_Inr[OF p] .
  have i: "i < length (zeros_like (self_q_eff s1))" using assms(2) s1 by simp
  have v: "v ! i = event_volume E (\<lambda>x. x) (calls s @ prologue_calls E (calls s))
                     (zeros_like (self_q_eff s)) storms i"
    using esp_loop_value[OF l i] i s1 by simp
  have len: "length v = length (self_q_eff s)" using esp_loop_frame[OF l] s1 by simp
  have T: "self_T_h s2 = self_T_h s" using esp_loop_frame[OF l] s1 by simp
  show ?thesis using sed_Inr[OF f] v len T assms(2) by simp
qed


subsection \<open>HydrologyEventThresholdStreamPower.run\_step\<close>












subsection \<open>The shear-stress models\<close>


















subsection \<open>HydrologySteadyStreamPower.run\_step\<close>

lemma ssp_run_step_Inr:
  assumes "ssp_run_step E s = Inr s'"
  shows "calls s' = calls s @ steady_step_calls E (calls s) (self_T_h s)"
    and "length (surface_water__discharge E (calls s')) = length (drainage_area E (calls s'))"
    and "length (recharge E (calls s')) = length (drainage_area E (calls s'))"
    and "self_q s' = clip_discharge (surface_water__discharge E (calls s'))
                       (map (\<lambda>i. recharge E (calls s') ! i * drainage_area E (calls s') ! i)
                          [0..<length (drainage_area E (calls s'))])"
    and "self_q_an s' = area_norm (self_q s') (drainage_area E (calls s'))"
  using assms
  by (auto simp: ssp_run_step_def steady_step_calls_def and_then_Inr_iff invoke_Inr_iff Let_def
      split: if_splits)


subsection \<open>What the call sequences contain\<close>




section \<open>The claims\<close>

subsection \<open>The shear-stress aggregator\<close>

text \<open>
  C1. The specification gives the triangle area to a sub-interval in which exactly one
  endpoint exceeds the threshold. The masks of the code ask the other endpoint to lie
  strictly below the threshold, so a sub-interval that starts or ends exactly at the
  threshold falls into the implied zero case. With one node, \<open>tau0 = 1\<close>, \<open>tau1 = 3\<close>,
  \<open>tau2 = 1\<close>, threshold \<open>1\<close> and both durations \<open>2\<close>, each sub-interval has exactly one
  exceeding endpoint: the specification gives the effective value \<open>2\<close>, the code returns
  the threshold \<open>1\<close>.
\<close>

theorem C1_endpoint_at_threshold_integrates_to_zero:
  "calc_storm_eff_shear_stress [1] [3] [1] 1 2 2 = Inr [1]
   \<and> spec_eff_shear_stress 1 3 1 1 2 2 = 2"
  by (simp add: aggregator_defs spec_eff_shear_stress_def spec_integral_def)

theorem C1_witness:
  "projr (calc_storm_eff_shear_stress [1] [3] [1] 1 2 2) ! 0 < spec_eff_shear_stress 1 3 1 1 2 2"
  using C1_endpoint_at_threshold_integrates_to_zero by simp

text \<open>
  C2. The scenario of the specification: every node has \<open>tau0 = 0\<close>, \<open>tau1 = 2\<close>,
  \<open>tau2 = 1\<close>, with threshold \<open>0\<close>, \<open>tr = 100\<close> and \<open>tb = 900\<close>. The specification expects
  \<open>1.45\<close> at every node. Since \<open>tau0\<close> equals the threshold, the code leaves the first
  integral at zero and returns \<open>1350 / 1000 = 1.35\<close>.
\<close>

theorem C2_scenario_returns_1_35:
  "calc_storm_eff_shear_stress [0, 0] [2, 2] [1, 1] 0 100 900 = Inr [1.35, 1.35]
   \<and> spec_eff_shear_stress 0 2 1 0 100 900 = 1.45"
  by (simp add: aggregator_defs spec_eff_shear_stress_def spec_integral_def)

theorem C2_witness:
  "projr (calc_storm_eff_shear_stress [0, 0] [2, 2] [1, 1] 0 100 900) = [1.35, 1.35]
   \<and> (1.35::real) < 1.45"
  using C2_scenario_returns_1_35 by simp

text \<open>
  C3. At a node where the shear stress starts below the threshold, exceeds it at the end
  of the event and is below it again at the end of the interevent, and for positive
  durations, the effective value lies strictly between the threshold and
  \<open>max(tau1, tauc)\<close>.
\<close>

theorem C3_effective_stress_between_threshold_and_peak:
  assumes ok: "calc_storm_eff_shear_stress tau0 tau1 tau2 thr tr tb = Inr taueff"
      and i: "i < length tau0"
      and lo: "tau0 ! i < thr" and hi: "tau1 ! i > thr" and lo2: "tau2 ! i < thr"
      and tr: "0 < tr" and tb: "0 < tb"
  shows "thr < taueff ! i \<and> taueff ! i < max (tau1 ! i) thr"
proof -
  let ?a = "node_integral (tau0 ! i) (tau1 ! i) thr tr"
  let ?b = "node_integral (tau1 ! i) (tau2 ! i) thr tb"
  let ?d = "tau1 ! i - thr"
  have v: "taueff ! i = (?a + ?b) / (tr + tb) + thr"
    using calc_storm_eff_shear_stress_nth[OF ok i] .
  have a: "0 < ?a" "?a < 0.5 * tr * ?d" using node_integral_crossing[OF lo hi tr] by simp_all
  have b: "0 < ?b" "?b < 0.5 * tb * ?d" using node_integral_crossing[OF lo2 hi tb] by simp_all
  have T: "0 < tr + tb" using tr tb by simp
  have s1: "0 < ?a + ?b" using a b by simp
  have s2: "?a + ?b < 0.5 * (tr + tb) * ?d" using a b by (simp add: algebra_simps)
  have q1: "0 < (?a + ?b) / (tr + tb)" using s1 T by simp
  have "(?a + ?b) / (tr + tb) < 0.5 * ?d"
    using T s2 by (rule half_bound)
  also have "\<dots> < ?d" using hi by simp
  finally have q2: "(?a + ?b) / (tr + tb) < ?d" .
  have m: "max (tau1 ! i) thr = tau1 ! i" using hi by simp
  show ?thesis using v q1 q2 m by simp
qed

theorem C3_witness:
  "calc_storm_eff_shear_stress [0] [3] [0] 1 1 1 = Inr [5 / 3]
   \<and> (1::real) < [5 / 3] ! 0 \<and> [5 / 3] ! 0 < max ([3] ! 0) (1::real)"
proof -
  have ok: "calc_storm_eff_shear_stress [0] [3] [0] 1 1 1 = Inr [5 / 3]"
    by (simp add: aggregator_defs)
  show ?thesis
    using ok C3_effective_stress_between_threshold_and_peak[OF ok, of 0] by simp
qed

subsection \<open>Evaluation of concrete runs\<close>

lemma upt_2 [simp]: "[0..<2] = [0, 1]"
  by (simp add: upt_rec)

lemmas run_defs =
  esp_run_step_def ets_run_step_def iss_run_step_def ess_run_step_def
  ess_run_step_record_state_def ssp_run_step_def
  find_pits_and_direct_def invoke_def set_effective_discharge_def set_critical_discharge_def
  update_shear_stress_def add_event_erosion_def record_rows_def
  area_norm_def divide_where_def critical_discharge_def excess_discharge_def clip_discharge_def
  env0_def env_raising_def state0_def eps_def and_then_def aggregator_defs

subsection \<open>The floor of the interevent duration\<close>

text \<open>
  C4. Every step operation should pass \<open>max(interstorm_dt, 1e-15)\<close> to the interevent
  advance of the groundwater solver. \<^verbatim>\<open>HydrologyEventShearStress.run_step\<close> does, and
  so do the other event loops; \<^verbatim>\<open>HydrologyEventShearStress.run_step_record_state\<close>
  passes \<^verbatim>\<open>self.interstorm_dts[i]\<close> as it is. For one event of storm duration \<open>100\<close>,
  interstorm duration \<open>0\<close> and intensity \<open>1\<close>, the recording variant completes and
  has called the solver with duration \<open>0\<close>, where the plain variant called it with the
  floor.
\<close>

theorem C4_record_state_passes_zero_duration:
  "\<not> isl (ess_run_step_record_state env0 [(100, 0, 1)] state0)
   \<and> calls (projr (ess_run_step_record_state env0 [(100, 0, 1)] state0))
       = [FindPits, FlowDirectorRun, SetRecharge 1, RunGW 100, AccumulateFlow False,
          SetRecharge 0, RunGW 0, AccumulateFlow False]
   \<and> calls (projr (ess_run_step env0 [(100, 0, 1)] state0))
       = [FindPits, FlowDirectorRun, SetRecharge 1, RunGW 100, AccumulateFlow False,
          SetRecharge 0, RunGW (1 / 10 ^ 15), AccumulateFlow False]"
  by (simp add: run_defs)

theorem C4_witness:
  "RunGW 0 \<in> set (calls (projr (ess_run_step_record_state env0 [(100, 0, 1)] state0)))
   \<and> RunGW 0 \<notin> set (calls (projr (ess_run_step env0 [(100, 0, 1)] state0)))"
  using C4_record_state_passes_zero_duration by simp

subsection \<open>A step that fails in its loop\<close>




subsection \<open>The threshold-discharge correction\<close>




subsection \<open>Area-normalised discharge\<close>



subsection \<open>The cap of the steady discharge\<close>

text \<open>
  C9. After a step of \<^verbatim>\<open>HydrologySteadyStreamPower\<close> the discharge field is at most
  recharge times drainage area at every node: it is the accumulated discharge where that
  does not exceed the bound and the bound elsewhere, and the area-normalised field is
  computed from the clipped values.
\<close>

theorem C9_steady_discharge_capped:
  assumes ok: "ssp_run_step E s = Inr s'"
  shows "(\<forall>i<length (self_q s').
            self_q s' ! i \<le> recharge E (calls s') ! i * drainage_area E (calls s') ! i
            \<and> self_q s' ! i = min (surface_water__discharge E (calls s') ! i)
                                  (recharge E (calls s') ! i * drainage_area E (calls s') ! i))
         \<and> self_q_an s' = area_norm (self_q s') (drainage_area E (calls s'))"
proof -
  note r = ssp_run_step_Inr[OF ok]
  let ?q = "surface_water__discharge E (calls s')"
  let ?a = "drainage_area E (calls s')"
  let ?qmax = "map (\<lambda>i. recharge E (calls s') ! i * ?a ! i) [0..<length ?a]"
  have q: "self_q s' = clip_discharge ?q ?qmax" using r(4) .
  have l: "length (self_q s') = length ?a" using q r(2) by simp
  have "self_q s' ! i = min (?q ! i) (recharge E (calls s') ! i * ?a ! i)"
    if "i < length (self_q s')" for i
    using that q l r(2) by (simp add: nth_clip_discharge)
  then show ?thesis using r(5) by simp
qed

theorem C9_witness:
  "\<not> isl (ssp_run_step env0 state0)
   \<and> surface_water__discharge env0 (calls (projr (ssp_run_step env0 state0))) = [2, 3]
   \<and> self_q (projr (ssp_run_step env0 state0)) ! 0 = 1
   \<and> self_q (projr (ssp_run_step env0 state0)) ! 1 = 0"
proof -
  let ?b = "ssp_run_step env0 state0"
  have b: "?b = Inr (projr ?b)" by (simp add: run_defs)
  have e: "surface_water__discharge env0 cs = [2, 3]" "recharge env0 cs = [1, 1]"
          "drainage_area env0 cs = [1, 0]" for cs
    by (simp_all add: env0_def)
  have lb: "length (self_q (projr ?b)) = 2" by (simp add: run_defs)
  note T = C9_steady_discharge_capped[OF b, unfolded e, THEN conjunct1, unfolded lb]
  have B0: "self_q (projr ?b) ! 0 = 1" using T[rule_format, of 0] by simp
  have B1: "self_q (projr ?b) ! 1 = 0" using T[rule_format, of 1] by simp
  have "\<not> isl ?b" by (subst b) simp
  then show ?thesis using B0 B1 e by simp
qed

subsection \<open>The first event starts from zero discharge\<close>

text \<open>
  C10. In a step of \<^verbatim>\<open>HydrologyEventStreamPower\<close> the trapezoid of the first event starts
  from the zero array, not from a snapshot of an earlier step: the effective discharge is
  \<open>0.5 * (0 + q1) * storm_dt\<close> plus the volume of the later events, divided by the
  horizon, where \<open>q1\<close> is the discharge at the end of the first event. With one event it
  is \<open>0.5 * (0 + q1) * storm_dt / T_h\<close>.
\<close>

theorem C10_first_event_starts_from_zero:
  assumes ok: "esp_run_step E ((storm_dt, interstorm_dt, intensity) # rest) s = Inr s'"
      and i: "i < length (self_q_eff s)"
  shows "(let c1 = calls s @ prologue_calls E (calls s)
                     @ [SetRecharge intensity, RunGW storm_dt, AccumulateFlow False];
              c2 = c1 @ [SetRecharge 0, RunGW (max interstorm_dt eps), AccumulateFlow False];
              q1 = surface_water__discharge E c1
          in self_q_eff s' ! i =
               (0.5 * (0 + q1 ! i) * storm_dt
                + event_volume E (\<lambda>x. x) c2 (surface_water__discharge E c2) rest i) / self_T_h s
             \<and> (rest = [] \<longrightarrow> self_q_eff s' ! i = 0.5 * (0 + q1 ! i) * storm_dt / self_T_h s))"
  using esp_run_step_q_eff[OF ok i] i by (simp add: Let_def)

theorem C10_witness:
  "\<not> isl (esp_run_step env0 [(100, 900, 1)] (state0\<lparr>self_q_eff := [5, 7]\<rparr>))
   \<and> self_q_eff (projr (esp_run_step env0 [(100, 900, 1)] (state0\<lparr>self_q_eff := [5, 7]\<rparr>))) ! 0
       = 0.5 * (0 + 2) * 100 / 1000"
proof -
  let ?s = "state0\<lparr>self_q_eff := [5, 7]\<rparr>"
  let ?a = "esp_run_step env0 [(100, 900, 1)] ?s"
  have a: "?a = Inr (projr ?a)" by (simp add: run_defs)
  have i: "0 < length (self_q_eff ?s)" by simp
  have e: "surface_water__discharge env0 cs = [2, 3]" for cs by (simp add: env0_def)
  have T: "self_T_h ?s = 1000" by (simp add: state0_def)
  note C = C10_first_event_starts_from_zero[OF a i, unfolded Let_def e T, THEN conjunct2]
  have "self_q_eff (projr ?a) ! 0 = 0.5 * (0 + 2) * 100 / 1000" using C by simp
  moreover have "\<not> isl ?a" by (subst a) simp
  ultimately show ?thesis by simp
qed

subsection \<open>The order of the calls in a step\<close>






end
